theory Spec2Isabelle
  imports Main
begin

section \<open>JavaScript values\<close>

text \<open>
  The fragment of JavaScript values that serializr touches.  \<open>JNum\<close> stands for an
  integer-valued number, \<open>JNaN\<close> for the one non-integer the code can produce by itself
  (the time of an invalid Date).  \<open>JArr\<close> and \<open>JObj\<close> are JSON trees, passed by value;
  an object property list holds the own properties in the order \<open>Object.keys\<close>
  enumerates them.  \<open>JRef\<close> is an instance with identity, living in the heap of the
  machine state.  \<open>JDate\<close> is a valid Date with its time in milliseconds,
  \<open>JErr\<close> an \<open>Error\<close> object with its message, \<open>JFun\<close> an opaque function.
  The names of the properties of schemas, instances and JSON objects are assumed not to
  be names of members of \<open>Object.prototype\<close>, so that \<open>key in obj\<close> is own-property
  membership there; the two reference tables of a context, whose keys come from the
  data, are modelled with the inherited members (see \<open>object_prototype_names\<close>).
  A number stands for itself only below \<open>10^21\<close> in magnitude: from there on JavaScript
  prints it with an exponent, which the model does not do.
\<close>

datatype jsval =
    JUndefined
  | JNull
  | JBool bool
  | JNum int
  | JNaN
  | JStr string
  | JArr "jsval list"
  | JObj "(string \<times> jsval) list"
  | JRef nat
  | JDate int
  | JInvalidDate
  | JErr string
  | JFun nat

text \<open>
  What a call can throw.  \<open>Unmodelled\<close> is not an exception of the program: it marks a
  step whose result depends on the host in a way the model does not compute.
\<close>

datatype error =
    InvariantError string
  | TypeError string
  | Thrown jsval
  | Unmodelled string

text \<open>\<open>invariant(cond, message)\<close>: throws \<open>"[serializr] " + (message || "Illegal State")\<close>.\<close>

definition invariant :: "bool \<Rightarrow> string \<Rightarrow> error + unit" where
  "invariant cond message =
     (if \<not> cond
      then Inl (InvariantError (''[serializr] '' @ (if message = [] then ''Illegal State'' else message)))
      else Inr ())"

text \<open>\<open>isPrimitive\<close>: \<open>null\<close>, or anything whose \<open>typeof\<close> is neither "object" nor "function".\<close>

fun isPrimitive :: "jsval \<Rightarrow> bool" where
  "isPrimitive JNull = True"
| "isPrimitive JUndefined = True"
| "isPrimitive (JBool b) = True"
| "isPrimitive (JNum n) = True"
| "isPrimitive JNaN = True"
| "isPrimitive (JStr s) = True"
| "isPrimitive (JArr xs) = False"
| "isPrimitive (JObj kvs) = False"
| "isPrimitive (JRef a) = False"
| "isPrimitive (JDate t) = False"
| "isPrimitive JInvalidDate = False"
| "isPrimitive (JErr m) = False"
| "isPrimitive (JFun f) = False"

text \<open>Truthiness, as \<open>if (err)\<close> and \<open>!!x\<close> test it.\<close>

fun truthy :: "jsval \<Rightarrow> bool" where
  "truthy JUndefined = False"
| "truthy JNull = False"
| "truthy (JBool b) = b"
| "truthy (JNum n) = (n \<noteq> 0)"
| "truthy JNaN = False"
| "truthy (JStr s) = (s \<noteq> [])"
| "truthy v = True"

subsection \<open>Rendering values as strings and property keys\<close>

definition digit_char :: "nat \<Rightarrow> char" where
  "digit_char n = ''0123456789'' ! n"

fun nat_digits :: "nat \<Rightarrow> nat \<Rightarrow> string" where
  "nat_digits 0 n = []"
| "nat_digits (Suc fuel) n =
     (if n < 10 then [digit_char n] else nat_digits fuel (n div 10) @ [digit_char (n mod 10)])"

text \<open>Decimal rendering of a natural number; \<open>Suc n\<close> digits always suffice for \<open>n\<close>.\<close>

definition nat_to_string :: "nat \<Rightarrow> string" where
  "nat_to_string n = nat_digits (Suc n) n"

definition int_to_string :: "int \<Rightarrow> string" where
  "int_to_string i = (if i < 0 then CHR ''-'' # nat_to_string (nat (- i)) else nat_to_string (nat i))"

fun join :: "string \<Rightarrow> string list \<Rightarrow> string" where
  "join sep [] = []"
| "join sep [s] = s"
| "join sep (s # t # ss) = s @ sep @ join sep (t # ss)"

text \<open>
  \<open>"" + value\<close>.  The text of a function and of a Date depends on the host; the model
  renders them by a fixed word.  An \<open>Error\<close> with an empty message prints as \<open>Error\<close>.
\<close>

fun toString :: "jsval \<Rightarrow> string" where
  "toString JUndefined = ''undefined''"
| "toString JNull = ''null''"
| "toString (JBool b) = (if b then ''true'' else ''false'')"
| "toString (JNum n) = int_to_string n"
| "toString JNaN = ''NaN''"
| "toString (JStr s) = s"
| "toString (JArr xs) =
     join '','' (map (\<lambda>x. if x = JNull \<or> x = JUndefined then [] else toString x) xs)"
| "toString (JObj kvs) = ''[object Object]''"
| "toString (JRef a) = ''[object Object]''"
| "toString (JDate t) = ''[date]''"
| "toString JInvalidDate = ''Invalid Date''"
| "toString (JErr m) = (if m = [] then ''Error'' else ''Error: '' @ m)"
| "toString (JFun f) = ''[function]''"

subsection \<open>Objects as ordered property lists\<close>

definition is_digit :: "char \<Rightarrow> bool" where
  "is_digit c = (c \<in> set ''0123456789'')"

text \<open>The value of a decimal digit: its position in the row of digits.\<close>

definition digit_of :: "char \<Rightarrow> nat" where
  "digit_of c = length (takeWhile (\<lambda>d. d \<noteq> c) ''0123456789'')"

fun digits_value :: "nat \<Rightarrow> string \<Rightarrow> nat" where
  "digits_value acc [] = acc"
| "digits_value acc (c # cs) = digits_value (10 * acc + digit_of c) cs"

text \<open>An array index: a canonical decimal numeral below \<open>2^32 - 1\<close>.\<close>

definition is_index :: "string \<Rightarrow> bool" where
  "is_index s = (s \<noteq> [] \<and> list_all is_digit s \<and> (s = ''0'' \<or> hd s \<noteq> CHR ''0'')
                 \<and> digits_value 0 s < 4294967295)"

text \<open>
  Own keys are enumerated with the array indices first, in ascending order, then the
  other names in the order of their creation.  \<open>obj_set\<close> keeps a property list in that
  order: an existing key is overwritten in place, a new index is put among the indices,
  any other new name goes to the end.
\<close>

fun obj_insert :: "string \<Rightarrow> 'a \<Rightarrow> (string \<times> 'a) list \<Rightarrow> (string \<times> 'a) list" where
  "obj_insert k v [] = [(k, v)]"
| "obj_insert k v ((k', v') # kvs) =
     (if is_index k \<and> (\<not> is_index k' \<or> digits_value 0 k < digits_value 0 k')
      then (k, v) # (k', v') # kvs
      else (k', v') # obj_insert k v kvs)"

fun obj_overwrite :: "string \<Rightarrow> 'a \<Rightarrow> (string \<times> 'a) list \<Rightarrow> (string \<times> 'a) list" where
  "obj_overwrite k v [] = []"
| "obj_overwrite k v ((k', v') # kvs) =
     (if k' = k then (k, v) # kvs else (k', v') # obj_overwrite k v kvs)"

definition obj_has :: "(string \<times> 'a) list \<Rightarrow> string \<Rightarrow> bool" where
  "obj_has kvs k = (map_of kvs k \<noteq> None)"

definition obj_set :: "string \<Rightarrow> 'a \<Rightarrow> (string \<times> 'a) list \<Rightarrow> (string \<times> 'a) list" where
  "obj_set k v kvs = (if obj_has kvs k then obj_overwrite k v kvs else obj_insert k v kvs)"

definition obj_get :: "(string \<times> jsval) list \<Rightarrow> string \<Rightarrow> jsval" where
  "obj_get kvs k = (case map_of kvs k of None \<Rightarrow> JUndefined | Some v \<Rightarrow> v)"

definition obj_keys :: "(string \<times> 'a) list \<Rightarrow> string list" where
  "obj_keys kvs = map fst kvs"

section \<open>Model schemas and property schemas\<close>

text \<open>
  A property schema is the record \<open>{serializer, deserializer, jsonname?, identifier?}\<close>.
  The pair of functions is one of the pairs the constructors of the library build, named
  by a \<open>codec\<close>; \<open>alias\<close> copies the pair of its argument, so the codec is shared.
  A model schema carries an identity \<open>sid\<close> (schemas are compared with \<open>===\<close>), its
  factory, its \<open>props\<close> and its \<open>extends\<close>.  A factory is given by the own properties of
  the fresh object it returns; \<open>None\<close> is a factory that returns a falsy value.
  In \<open>props\<close>, \<open>PTrue\<close> and \<open>PFalse\<close> are the sentinels \<open>true\<close> and \<open>false\<close>.
  The model covers \<open>identifier()\<close> without a register function, \<open>reference\<close> with the
  default lookup, and \<open>custom\<close> with two pure total functions; \<open>map\<close> and the decorator
  are outside it.
\<close>

datatype codec =
    CPrimitive
  | CIdentifier
  | CDate
  | CCustom "jsval \<Rightarrow> jsval" "jsval \<Rightarrow> jsval"
  | CObject modelschema
  | CReference string modelschema
  | CList propschema
and propschema =
    PropSchema (jsonname: "string option") (identifier_flag: "bool option") (codec: codec)
and propdef = PTrue | PFalse | PSchema propschema
and modelschema =
    ModelSchema (sid: nat) (targetClass: "nat option") (factory: "(string \<times> jsval) list option")
      (props: "(string \<times> propdef) list") (extends_of: "modelschema option")

text \<open>
  What can be handed to \<open>getDefaultModelSchema\<close>: a falsy value, a model schema, a
  class (constructor function) or an instance of a class.  The registry is the
  \<open>serializeInfo\<close> slot of each class.
\<close>

datatype thing = TFalsy | TSchema modelschema | TClass nat | TInstance nat

type_synonym registry = "nat \<Rightarrow> modelschema option"

datatype lookup_result = Null | Undefined | Found modelschema

fun getDefaultModelSchema :: "registry \<Rightarrow> thing \<Rightarrow> lookup_result" where
  "getDefaultModelSchema reg TFalsy = Null"
| "getDefaultModelSchema reg (TSchema s) = Found s"
| "getDefaultModelSchema reg (TClass c) =
     (case reg c of Some s \<Rightarrow> Found s | None \<Rightarrow> Undefined)"
| "getDefaultModelSchema reg (TInstance c) =
     (case reg c of Some s \<Rightarrow> Found s | None \<Rightarrow> Undefined)"

text \<open>
  \<open>setDefaultModelSchema(clazz, modelSchema)\<close>: the second argument must be a model
  schema; the result is the value returned together with the registry afterwards.
\<close>

fun setDefaultModelSchema :: "registry \<Rightarrow> nat \<Rightarrow> thing \<Rightarrow> error + (modelschema \<times> registry)" where
  "setDefaultModelSchema reg clazz (TSchema s) = Inr (s, reg(clazz \<mapsto> s))"
| "setDefaultModelSchema reg clazz t = Inl (InvariantError ''[serializr] Illegal State'')"

text \<open>
  The object \<open>mrFactory\<close> returns binds the name \<open>setDefaultModelSchema\<close> to the function
  \<open>getDefaultModelSchema\<close>; the second argument of a call is ignored and the registry
  is left as it is.
\<close>

definition exported_getDefaultModelSchema :: "registry \<Rightarrow> thing \<Rightarrow> lookup_result \<times> registry" where
  "exported_getDefaultModelSchema reg t = (getDefaultModelSchema reg t, reg)"

definition exported_setDefaultModelSchema ::
  "registry \<Rightarrow> thing \<Rightarrow> thing \<Rightarrow> lookup_result \<times> registry" where
  "exported_setDefaultModelSchema reg clazz modelSchema = (getDefaultModelSchema reg clazz, reg)"

fun lookup_text :: "lookup_result \<Rightarrow> string" where
  "lookup_text Null = ''null''"
| "lookup_text Undefined = ''undefined''"
| "lookup_text (Found s) = ''[object Object]''"

subsection \<open>Constructors of property schemas\<close>

definition primitive :: propschema where
  "primitive = PropSchema None None CPrimitive"

definition identifier_schema :: propschema where
  "identifier_schema = PropSchema None (Some True) CIdentifier"

definition date :: propschema where
  "date = PropSchema None None CDate"


definition isAliasedPropSchema :: "propschema \<Rightarrow> bool" where
  "isAliasedPropSchema p = (case jsonname p of None \<Rightarrow> False | Some n \<Rightarrow> n \<noteq> [])"

definition isIdentifierPropSchema :: "propschema \<Rightarrow> bool" where
  "isIdentifierPropSchema p = (identifier_flag p = Some True)"

text \<open>\<open>alias(name, propSchema)\<close>; the second argument may be missing or \<open>true\<close>.\<close>

definition alias_schema :: "string \<Rightarrow> propdef option \<Rightarrow> error + propschema" where
  "alias_schema name arg =
     (if name = [] then Inl (InvariantError ''[serializr] expected prop name as first argument'')
      else case arg of
        Some PFalse \<Rightarrow> Inr (PropSchema (Some name) (Some False) CPrimitive)
      | Some (PSchema p) \<Rightarrow>
          if isAliasedPropSchema p
          then Inl (InvariantError ''[serializr] provided prop is already aliased'')
          else Inr (PropSchema (Some name) (Some (isIdentifierPropSchema p)) (codec p))
      | _ \<Rightarrow> Inr (PropSchema (Some name) (Some False) CPrimitive))"

text \<open>
  \<open>object(modelSchema)\<close>: the argument is resolved through \<open>getDefaultModelSchema\<close> and
  checked when \<open>object\<close> is called; the serializer and the deserializer close over the
  schema found then.
\<close>

definition object :: "registry \<Rightarrow> thing \<Rightarrow> error + propschema" where
  "object reg modelSchema =
     (case getDefaultModelSchema reg modelSchema of
        Found s \<Rightarrow> Inr (PropSchema None None (CObject s))
      | r \<Rightarrow> Inl (InvariantError (''[serializr] expected modelSchema, got '' @ lookup_text r)))"

definition list_schema :: "propschema option \<Rightarrow> error + propschema" where
  "list_schema arg =
     (let propSchema = (case arg of None \<Rightarrow> primitive | Some p \<Rightarrow> p) in
      if isAliasedPropSchema propSchema
      then Inl (InvariantError ''[serializr] provided prop is aliased, please put aliases first'')
      else Inr (PropSchema None None (CList propSchema)))"

text \<open>\<open>getIdentifierProp\<close>: the first property flagged \<open>identifier\<close>, up the \<open>extends\<close> chain.\<close>

fun getIdentifierProp :: "modelschema option \<Rightarrow> string option" where
  "getIdentifierProp None = None"
| "getIdentifierProp (Some (ModelSchema i tc fa ps ex)) =
     (case filter (\<lambda>(propName, d). case d of PSchema p \<Rightarrow> identifier_flag p = Some True | _ \<Rightarrow> False) ps of
        (propName, d) # rest \<Rightarrow> Some propName
      | [] \<Rightarrow> getIdentifierProp ex)"

text \<open>\<open>reference(target)\<close> with a schema, class or instance as target and the default lookup.\<close>

definition reference :: "registry \<Rightarrow> thing \<Rightarrow> error + propschema" where
  "reference reg tgt =
     (case getDefaultModelSchema reg tgt of
        Found s \<Rightarrow>
          (case getIdentifierProp (Some s) of
             Some childIdentifierAttribute \<Rightarrow>
               Inr (PropSchema None None (CReference childIdentifierAttribute s))
           | None \<Rightarrow>
               Inl (InvariantError (''[serializr] provided model schema doesn'' @ [CHR 0x27]
                 @ ''t define an identifier() property and cannot be used by ''
                 @ [CHR 0x27] @ ''ref'' @ [CHR 0x27] @ ''.'')))
      | r \<Rightarrow> Inl (InvariantError
                (''[serializr] expected model schema or string as first argument for ''
                 @ [CHR 0x27] @ ''ref'' @ [CHR 0x27] @ '', got '' @ lookup_text r)))"

section \<open>The deserialization machine\<close>

text \<open>
  Callbacks are closures over mutable cells; the model names each kind of closure by a
  constructor and keeps the cells in the machine state.
  \<^item> \<open>Completion\<close> is the completion callback of the caller; every invocation is
    recorded, with its two arguments, in \<open>completions\<close>.
  \<^item> \<open>GUARDED_NOOP\<close> throws when its argument is truthy.
  \<^item> \<open>Once oid cid fn cb\<close> is the function \<open>createCallback(fn)\<close> returns on context
    \<open>cid\<close>: \<open>oid\<close> names the \<open>fired\<close> flag of \<open>once\<close>, and \<open>cb\<close> is \<open>this.onReadyCb\<close>,
    which is assigned in the constructor of the context and never again.
  \<^item> \<open>ProcessorCb pid idx cb\<close> is \<open>processorCb.bind(null, idx)\<close> of the call \<open>pid\<close>
    of \<open>parallel\<close>, whose third argument was \<open>cb\<close>.
  The function handed to \<open>createCallback\<close> is \<open>GUARDED_NOOP\<close> (the lock) or the
  assignment \<open>target[propName] = value\<close>.
\<close>

datatype callback_fn = LockFn | Assign nat string

datatype cb =
    Completion
  | GUARDED_NOOP
  | Once nat nat callback_fn cb
  | ProcessorCb nat nat cb

datatype pending = Pending modelschema jsval cb

datatype resolved = Resolved modelschema jsval

record ctx =
  parentContext :: "nat option"
  isRoot :: bool
  pendingCallbacks :: int
  pendingRefsCount :: int
  onReadyCb :: cb
  json :: jsval
  target :: jsval
  hasError :: bool
  modelSchema :: modelschema
  rootContext :: nat
  pendingRefs :: "(string \<times> pending list) list"
  resolvedRefs :: "(string \<times> resolved list) list"

record par =
  left :: int
  resultArray :: "jsval list"
  failed :: bool

text \<open>
  The machine state: the heap of instances, the contexts, the \<open>fired\<close> flags, the
  cells of the calls of \<open>parallel\<close>, each with the next free name, the array \<open>items\<close>
  of a top-level \<open>deserialize\<close> of an array, and the record of the completions.
\<close>

record mstate =
  heap :: "nat \<Rightarrow> (string \<times> jsval) list"
  nextAddr :: nat
  contexts :: "nat \<Rightarrow> ctx"
  nextContext :: nat
  fired :: "nat \<Rightarrow> bool"
  nextOnce :: nat
  parallels :: "nat \<Rightarrow> par"
  nextParallel :: nat
  items :: "jsval list"
  completions :: "(jsval \<times> jsval) list"

text \<open>A thrown exception keeps the state reached when it was thrown.\<close>

type_synonym outcome = "(error \<times> mstate) + mstate"

type_synonym 'a outcome_with = "(error \<times> mstate) + ('a \<times> mstate)"

definition set_context :: "nat \<Rightarrow> ctx \<Rightarrow> mstate \<Rightarrow> mstate" where
  "set_context cid c st = st\<lparr>contexts := (contexts st)(cid := c)\<rparr>"

definition set_property :: "nat \<Rightarrow> string \<Rightarrow> jsval \<Rightarrow> mstate \<Rightarrow> mstate" where
  "set_property a k v st = st\<lparr>heap := (heap st)(a := obj_set k v (heap st a))\<rparr>"

text \<open>Calling the function handed to \<open>createCallback\<close> with \<open>value\<close>.\<close>

fun call_fn :: "callback_fn \<Rightarrow> jsval \<Rightarrow> mstate \<Rightarrow> outcome" where
  "call_fn LockFn v st = (if truthy v then Inl (Thrown v, st) else Inr st)"
| "call_fn (Assign a propName) v st = Inr (set_property a propName v st)"

definition unresolvable_keys :: "(string \<times> pending list) list \<Rightarrow> string list" where
  "unresolvable_keys refs = filter (\<lambda>uuid. case map_of refs uuid of None \<Rightarrow> False | Some l \<Rightarrow> length l > 0) (obj_keys refs)"

definition unresolvable_message :: "(string \<times> pending list) list \<Rightarrow> string" where
  "unresolvable_message refs =
     ''Unresolvable references in json: '' @ [CHR 0x22]
       @ join ([CHR 0x22] @ '', '' @ [CHR 0x22]) (unresolvable_keys refs) @ [CHR 0x22]"

text \<open>\<open>resultArray[idx] = result\<close>: writing past the end extends the array; a hole reads \<open>undefined\<close>.\<close>

definition array_set :: "jsval list \<Rightarrow> nat \<Rightarrow> jsval \<Rightarrow> jsval list" where
  "array_set xs i v =
     (if i < length xs then xs[i := v] else xs @ replicate (i - length xs) JUndefined @ [v])"

text \<open>Invoking a callback with \<open>(err, value)\<close>; a missing argument is \<open>undefined\<close>.\<close>

fun invoke :: "cb \<Rightarrow> jsval \<Rightarrow> jsval \<Rightarrow> mstate \<Rightarrow> outcome" where
  "invoke Completion err v st = Inr (st\<lparr>completions := completions st @ [(err, v)]\<rparr>)"
| "invoke GUARDED_NOOP err v st = (if truthy err then Inl (Thrown err, st) else Inr st)"
| "invoke (Once oid cid f ready) err v st =
     (if fired st oid then Inl (InvariantError ''[serializr] callback was invoked twice'', st)
      else
        let st1 = st\<lparr>fired := (fired st)(oid := True)\<rparr> in
        if truthy err then
          (if \<not> hasError (contexts st1 cid)
           then invoke ready err JUndefined
                  (set_context cid ((contexts st1 cid)\<lparr>hasError := True\<rparr>) st1)
           else Inr st1)
        else if \<not> hasError (contexts st1 cid) then
          (case call_fn f v st1 of
             Inl e \<Rightarrow> Inl e
           | Inr st2 \<Rightarrow>
               let c = contexts st2 cid;
                   n = pendingCallbacks c - 1;
                   st3 = set_context cid (c\<lparr>pendingCallbacks := n\<rparr>) st2
               in if n = pendingRefsCount c then
                    (if pendingRefsCount c > 0
                     then invoke ready (JErr (unresolvable_message (pendingRefs c))) JUndefined st3
                     else invoke ready JNull (target c) st3)
                  else Inr st3)
        else Inr st1)"
| "invoke (ProcessorCb pid idx cb) err result st =
     (let p = parallels st pid in
      if truthy err then
        (if \<not> failed p
         then invoke cb err JUndefined (st\<lparr>parallels := (parallels st)(pid := p\<lparr>failed := True\<rparr>)\<rparr>)
         else Inr st)
      else
        let arr = array_set (resultArray p) idx result;
            n = left p - 1;
            st1 = st\<lparr>parallels := (parallels st)(pid := p\<lparr>resultArray := arr, left := n\<rparr>)\<rparr>
        in if n = 0 then invoke cb JNull (JArr arr) st1 else Inr st1)"

text \<open>\<open>new Context(parentContext, modelSchema, json, onReadyCb, customArgs)\<close>.\<close>

definition new_context ::
  "nat option \<Rightarrow> modelschema \<Rightarrow> jsval \<Rightarrow> cb option \<Rightarrow> mstate \<Rightarrow> nat \<times> mstate" where
  "new_context parent schema jsn ready st =
     (let cid = nextContext st;
          c = \<lparr> parentContext = parent, isRoot = (parent = None), pendingCallbacks = 0,
                pendingRefsCount = 0,
                onReadyCb = (case ready of None \<Rightarrow> GUARDED_NOOP | Some f \<Rightarrow> f),
                json = jsn, target = JNull, hasError = False, modelSchema = schema,
                rootContext = (case parent of None \<Rightarrow> cid | Some p \<Rightarrow> p),
                pendingRefs = [], resolvedRefs = [] \<rparr>
      in (cid, st\<lparr>contexts := (contexts st)(cid := c), nextContext := Suc cid\<rparr>))"

text \<open>\<open>Context.prototype.createCallback\<close>.\<close>

definition createCallback :: "nat \<Rightarrow> callback_fn \<Rightarrow> mstate \<Rightarrow> cb \<times> mstate" where
  "createCallback cid f st =
     (let c = contexts st cid;
          oid = nextOnce st
      in (Once oid cid f (onReadyCb c),
          st\<lparr>contexts := (contexts st)(cid := c\<lparr>pendingCallbacks := pendingCallbacks c + 1\<rparr>),
             fired := (fired st)(oid := False), nextOnce := Suc oid\<rparr>))"

fun isAssignableTo :: "modelschema option \<Rightarrow> modelschema \<Rightarrow> bool" where
  "isAssignableTo None expectedType = False"
| "isAssignableTo (Some (ModelSchema i tc fa ps ex)) expectedType =
     (if i = sid expectedType then True else isAssignableTo ex expectedType)"

text \<open>
  The tables \<open>pendingRefs\<close> and \<open>resolvedRefs\<close> are plain objects, so a key that names a
  member of \<open>Object.prototype\<close> finds the inherited member: \<open>uuid in this.resolvedRefs\<close>
  holds, \<open>this.resolvedRefs[uuid]\<close> is truthy, and the calls of \<open>filter\<close> and \<open>push\<close> on it
  throw a \<open>TypeError\<close>.
\<close>

definition object_prototype_names :: "string list" where
  "object_prototype_names =
     [''constructor'', ''__defineGetter__'', ''__defineSetter__'', ''hasOwnProperty'',
      ''__lookupGetter__'', ''__lookupSetter__'', ''isPrototypeOf'', ''propertyIsEnumerable'',
      ''toString'', ''valueOf'', ''__proto__'', ''toLocaleString'']"

text \<open>\<open>Context.prototype.await\<close>; the key of \<open>uuid\<close> in the two tables is its string.\<close>

definition await :: "nat \<Rightarrow> modelschema \<Rightarrow> jsval \<Rightarrow> cb \<Rightarrow> mstate \<Rightarrow> outcome" where
  "await cid schema uuid callback st =
     (let c = contexts st cid; key = toString uuid in
      if \<not> isRoot c then Inl (InvariantError ''[serializr] Illegal State'', st)
      else if key \<in> set object_prototype_names
      then Inl (TypeError ''this.resolvedRefs[uuid].filter is not a function'', st)
      else
        case (case map_of (resolvedRefs c) key of
                None \<Rightarrow> None
              | Some rs \<Rightarrow>
                  (case filter (\<lambda>r. case r of Resolved s v \<Rightarrow> isAssignableTo (Some s) schema) rs of
                     [] \<Rightarrow> None
                   | Resolved s v # rest \<Rightarrow> Some v))
        of
          Some v \<Rightarrow> invoke callback JNull v st
        | None \<Rightarrow>
            let l = (case map_of (pendingRefs c) key of None \<Rightarrow> [] | Some l \<Rightarrow> l) in
            Inr (set_context cid
                   (c\<lparr>pendingRefsCount := pendingRefsCount c + 1,
                      pendingRefs := obj_set key (l @ [Pending schema uuid callback]) (pendingRefs c)\<rparr>)
                   st))"

text \<open>
  The loop of \<open>Context.prototype.resolve\<close>, from index \<open>i - 1\<close> down to \<open>0\<close>; the list is
  read from the state at every round.
\<close>

fun resolve_loop :: "nat \<Rightarrow> modelschema \<Rightarrow> string \<Rightarrow> jsval \<Rightarrow> nat \<Rightarrow> mstate \<Rightarrow> outcome" where
  "resolve_loop cid schema key v 0 st = Inr st"
| "resolve_loop cid schema key v (Suc i) st =
     (let c = contexts st cid;
          l = (case map_of (pendingRefs c) key of None \<Rightarrow> [] | Some l \<Rightarrow> l)
      in if \<not> i < length l
         then Inl (TypeError ''Cannot read properties of undefined (reading modelSchema)'', st)
         else case l ! i of
           Pending s u callback \<Rightarrow>
             if isAssignableTo (Some schema) s then
               (case invoke callback JNull v
                       (set_context cid
                          (c\<lparr>pendingRefs := obj_set key (take i l @ drop (Suc i) l) (pendingRefs c),
                             pendingRefsCount := pendingRefsCount c - 1\<rparr>) st) of
                  Inl e \<Rightarrow> Inl e
                | Inr st1 \<Rightarrow> resolve_loop cid schema key v i st1)
             else resolve_loop cid schema key v i st)"

text \<open>\<open>Context.prototype.resolve\<close>.\<close>

definition resolve :: "nat \<Rightarrow> modelschema \<Rightarrow> jsval \<Rightarrow> jsval \<Rightarrow> mstate \<Rightarrow> outcome" where
  "resolve cid schema uuid v st =
     (let c = contexts st cid; key = toString uuid in
      if \<not> isRoot c then Inl (InvariantError ''[serializr] Illegal State'', st)
      else if key \<in> set object_prototype_names
      then Inl (TypeError ''this.resolvedRefs[uuid].push is not a function'', st)
      else
        let rs = (case map_of (resolvedRefs c) key of None \<Rightarrow> [] | Some rs \<Rightarrow> rs);
            st1 = set_context cid
                    (c\<lparr>resolvedRefs := obj_set key (rs @ [Resolved schema v]) (resolvedRefs c)\<rparr>) st
        in case map_of (pendingRefs c) key of
             None \<Rightarrow> Inr st1
           | Some l \<Rightarrow> resolve_loop cid schema key v (length l) st1)"

subsection \<open>Reading JSON\<close>

definition index_keys :: "nat \<Rightarrow> string list" where
  "index_keys n = map nat_to_string [0..<n]"

text \<open>
  \<open>key in json\<close>: a primitive on the right throws.  Dates, errors and functions are
  not JSON; the model gives them no properties.
\<close>

fun json_has :: "mstate \<Rightarrow> jsval \<Rightarrow> string \<Rightarrow> error + bool" where
  "json_has st (JObj kvs) k = Inr (obj_has kvs k)"
| "json_has st (JArr xs) k = Inr ((is_index k \<and> digits_value 0 k < length xs) \<or> k = ''length'')"
| "json_has st (JRef a) k = Inr (obj_has (heap st a) k)"
| "json_has st (JDate t) k = Inr False"
| "json_has st JInvalidDate k = Inr False"
| "json_has st (JErr m) k = Inr False"
| "json_has st (JFun f) k = Inr False"
| "json_has st v k = Inl (TypeError ''Cannot use in operator to search for a key in a primitive'')"

text \<open>\<open>json[key]\<close> on a value other than \<open>null\<close> and \<open>undefined\<close>.\<close>

fun json_get :: "mstate \<Rightarrow> jsval \<Rightarrow> string \<Rightarrow> jsval" where
  "json_get st (JObj kvs) k = obj_get kvs k"
| "json_get st (JArr xs) k =
     (if is_index k \<and> digits_value 0 k < length xs then xs ! digits_value 0 k
      else if k = ''length'' then JNum (int (length xs)) else JUndefined)"
| "json_get st (JStr s) k =
     (if is_index k \<and> digits_value 0 k < length s then JStr [s ! digits_value 0 k]
      else if k = ''length'' then JNum (int (length s)) else JUndefined)"
| "json_get st (JRef a) k = obj_get (heap st a) k"
| "json_get st v k = JUndefined"

text \<open>The keys \<open>for (var key in json)\<close> visits.\<close>

fun for_in_keys :: "mstate \<Rightarrow> jsval \<Rightarrow> string list" where
  "for_in_keys st (JObj kvs) = obj_keys kvs"
| "for_in_keys st (JArr xs) = index_keys (length xs)"
| "for_in_keys st (JStr s) = index_keys (length s)"
| "for_in_keys st (JRef a) = obj_keys (heap st a)"
| "for_in_keys st v = []"

definition schemaHasAlias :: "modelschema \<Rightarrow> string \<Rightarrow> bool" where
  "schemaHasAlias schema name =
     list_ex (\<lambda>(key, d). case d of PSchema p \<Rightarrow> jsonname p = Some name | _ \<Rightarrow> False) (props schema)"

text \<open>The loop of \<open>deserializeStarProps(schema, obj, json)\<close> over the keys of \<open>json\<close>.\<close>

fun deserializeStarProps_loop ::
  "modelschema \<Rightarrow> nat \<Rightarrow> jsval \<Rightarrow> string list \<Rightarrow> mstate \<Rightarrow> outcome" where
  "deserializeStarProps_loop schema obj jsn [] st = Inr st"
| "deserializeStarProps_loop schema obj jsn (key # keys) st =
     (if \<not> obj_has (props schema) key \<and> \<not> schemaHasAlias schema key then
        (let v = json_get st jsn key in
         if \<not> isPrimitive v
         then Inl (InvariantError
                (''[serializr] encountered non primitive value while deserializing '' @
                 [CHR 0x27] @ ''*'' @ [CHR 0x27] @ '' properties in property '' @
                 [CHR 0x27] @ key @ [CHR 0x27] @ '': '' @ toString v), st)
         else deserializeStarProps_loop schema obj jsn keys (set_property obj key v st))
      else deserializeStarProps_loop schema obj jsn keys st)"

definition deserializeStarProps :: "modelschema \<Rightarrow> nat \<Rightarrow> jsval \<Rightarrow> mstate \<Rightarrow> outcome" where
  "deserializeStarProps schema obj jsn st =
     deserializeStarProps_loop schema obj jsn (for_in_keys st jsn) st"

subsection \<open>parallel\<close>

text \<open>The \<open>forEach\<close> of \<open>parallel\<close>: the processor gets each element and its bound callback.\<close>

fun parallel_loop ::
  "(jsval \<Rightarrow> cb \<Rightarrow> mstate \<Rightarrow> outcome) \<Rightarrow> nat \<Rightarrow> cb \<Rightarrow> nat \<Rightarrow> jsval list \<Rightarrow> mstate \<Rightarrow> outcome" where
  "parallel_loop processor pid cb idx [] st = Inr st"
| "parallel_loop processor pid cb idx (x # xs) st =
     (case processor x (ProcessorCb pid idx cb) st of
        Inl e \<Rightarrow> Inl e
      | Inr st1 \<Rightarrow> parallel_loop processor pid cb (Suc idx) xs st1)"

definition parallel ::
  "jsval list \<Rightarrow> (jsval \<Rightarrow> cb \<Rightarrow> mstate \<Rightarrow> outcome) \<Rightarrow> cb \<Rightarrow> mstate \<Rightarrow> outcome" where
  "parallel ar processor cb st =
     (if length ar = 0 then invoke cb JNull (JArr []) st
      else
        let pid = nextParallel st;
            st1 = st\<lparr>parallels := (parallels st)(pid :=
                       \<lparr>left = int (length ar), resultArray = [], failed = False\<rparr>),
                     nextParallel := Suc pid\<rparr>
        in parallel_loop processor pid cb 0 ar st1)"

lemma parallel_loop_cong [fundef_cong]:
  assumes "ar = ar'" "pid = pid'" "cb = cb'" "idx = idx'" "st = st'"
    and "\<And>x c s. x \<in> set ar' \<Longrightarrow> processor x c s = processor' x c s"
  shows "parallel_loop processor pid cb idx ar st = parallel_loop processor' pid' cb' idx' ar' st'"
  using assms
proof (induction ar' arbitrary: ar idx idx' st st')
  case Nil
  then show ?case by simp
next
  case (Cons x xs)
  then show ?case by (auto split: sum.splits)
qed

lemma parallel_cong [fundef_cong]:
  assumes "ar = ar'" "cb = cb'" "st = st'"
    and "\<And>x c s. x \<in> set ar' \<Longrightarrow> processor x c s = processor' x c s"
  shows "parallel ar processor cb st = parallel ar' processor' cb' st'"
  unfolding parallel_def using assms
  by (auto simp: Let_def intro!: parallel_loop_cong)

subsection \<open>Deserializers\<close>

text \<open>
  \<open>new Date(jsonValue)\<close>.  A number gives the Date of that time, an invalid one beyond
  8.64e15 ms; \<open>null\<close> and the booleans count as numbers.  A string is parsed by the host,
  and an object is first turned into a string: the model does not compute that (\<open>None\<close>).
\<close>

fun newDate :: "jsval \<Rightarrow> jsval option" where
  "newDate (JNum n) = Some (if \<bar>n\<bar> \<le> 8640000000000000 then JDate n else JInvalidDate)"
| "newDate JNaN = Some JInvalidDate"
| "newDate JUndefined = Some JInvalidDate"
| "newDate JNull = Some (JDate 0)"
| "newDate (JBool b) = Some (JDate (if b then 1 else 0))"
| "newDate (JDate t) = Some (JDate t)"
| "newDate JInvalidDate = Some JInvalidDate"
| "newDate v = None"

definition is_nullish :: "jsval \<Rightarrow> bool" where
  "is_nullish v = (v = JNull \<or> v = JUndefined)"

text \<open>
  \<open>deserializer cd jsonValue done context\<close> is the \<open>deserializer\<close> function of a property
  schema with the pair \<open>cd\<close>.  The callback the identifier deserializer hands to the
  primitive deserializer is called by it at once, so its body is written in place.
  \<open>deserializeProps\<close> is the \<open>forEach\<close> over \<open>schema.props\<close>, \<open>deserializeProp\<close> its body
  from \<open>jsonAttr\<close> on.
\<close>

function (sequential) deserializer :: "codec \<Rightarrow> jsval \<Rightarrow> cb \<Rightarrow> nat \<Rightarrow> mstate \<Rightarrow> outcome"
  and deserializeObjectWithSchema ::
    "nat option \<Rightarrow> modelschema \<Rightarrow> jsval \<Rightarrow> cb option \<Rightarrow> mstate \<Rightarrow> jsval outcome_with"
  and deserializePropsWithSchema :: "nat \<Rightarrow> modelschema \<Rightarrow> jsval \<Rightarrow> nat \<Rightarrow> mstate \<Rightarrow> outcome"
  and deserializeProps ::
    "nat \<Rightarrow> modelschema \<Rightarrow> jsval \<Rightarrow> nat \<Rightarrow> (string \<times> propdef) list \<Rightarrow> mstate \<Rightarrow> outcome"
  and deserializeProp ::
    "nat \<Rightarrow> string \<Rightarrow> string option \<Rightarrow> codec \<Rightarrow> jsval \<Rightarrow> nat \<Rightarrow> mstate \<Rightarrow> outcome"
where
  "deserializer CPrimitive jsonValue done cx st =
     (if \<not> isPrimitive jsonValue
      then invoke done (JStr (''[serializr] this value is not primitive: '' @ toString jsonValue))
             JUndefined st
      else invoke done JNull jsonValue st)"
| "deserializer CIdentifier jsonValue done cx st =
     (let err = (if \<not> isPrimitive jsonValue
                 then JStr (''[serializr] this value is not primitive: '' @ toString jsonValue)
                 else JNull);
          ident = (if \<not> isPrimitive jsonValue then JUndefined else jsonValue);
          c = contexts st cx
      in case resolve (rootContext c) (modelSchema c) ident (target c) st of
           Inl e \<Rightarrow> Inl e
         | Inr st1 \<Rightarrow> invoke done err ident st1)"
| "deserializer CDate jsonValue done cx st =
     (if is_nullish jsonValue then invoke done JNull jsonValue st
      else (case newDate jsonValue of
              Some d \<Rightarrow> invoke done JNull d st
            | None \<Rightarrow> Inl (Unmodelled ''new Date of a string'', st)))"
| "deserializer (CCustom ser deser) jsonValue done cx st = invoke done JNull (deser jsonValue) st"
| "deserializer (CObject schema) childJson done cx st =
     (if is_nullish childJson then invoke done JNull childJson st
      else case deserializeObjectWithSchema (Some cx) schema childJson (Some done) st of
             Inl e \<Rightarrow> Inl e
           | Inr (instance, st1) \<Rightarrow> Inr st1)"
| "deserializer (CReference attr schema) identifierValue done cx st =
     (if is_nullish identifierValue then invoke done JNull identifierValue st
      else await (rootContext (contexts st cx)) schema identifierValue done st)"
| "deserializer (CList (PropSchema jn idf cd)) jsonArray done cx st =
     (case jsonArray of
        JArr ar \<Rightarrow> parallel ar (\<lambda>item itemDone. deserializer cd item itemDone cx) done st
      | _ \<Rightarrow> invoke done (JStr ''[serializr] expected JSON array'') JUndefined st)"
| "deserializeObjectWithSchema parent schema jsn callback st =
     (if is_nullish jsn then
        (case callback of
           None \<Rightarrow> Inl (TypeError ''callback is not a function'', st)
         | Some f \<Rightarrow> (case invoke f JNull JNull st of
                        Inl e \<Rightarrow> Inl e
                      | Inr st1 \<Rightarrow> Inr (JUndefined, st1)))
      else
        let (cx, st1) = new_context parent schema jsn callback st in
        case factory schema of
          None \<Rightarrow> Inl (InvariantError ''[serializr] No object returned from factory'', st1)
        | Some own \<Rightarrow>
            let a = nextAddr st1;
                st2 = st1\<lparr>heap := (heap st1)(a := own), nextAddr := Suc a\<rparr>;
                st3 = set_context cx ((contexts st2 cx)\<lparr>target := JRef a\<rparr>) st2;
                (lock, st4) = createCallback cx LockFn st3
            in case deserializePropsWithSchema cx schema jsn a st4 of
                 Inl e \<Rightarrow> Inl e
               | Inr st5 \<Rightarrow>
                   (case invoke lock JUndefined JUndefined st5 of
                      Inl e \<Rightarrow> Inl e
                    | Inr st6 \<Rightarrow> Inr (JRef a, st6)))"
| "deserializePropsWithSchema cx (ModelSchema i tc fa ps ex) jsn tgt st =
     (case ex of
        None \<Rightarrow> deserializeProps cx (ModelSchema i tc fa ps ex) jsn tgt ps st
      | Some parent \<Rightarrow>
          (case deserializePropsWithSchema cx parent jsn tgt st of
             Inl e \<Rightarrow> Inl e
           | Inr st1 \<Rightarrow> deserializeProps cx (ModelSchema i tc fa ps ex) jsn tgt ps st1))"
| "deserializeProps cx schema jsn tgt [] st = Inr st"
| "deserializeProps cx schema jsn tgt ((propName, propDef) # rest) st =
     (if propName = ''*'' then
        (case propDef of
           PTrue \<Rightarrow>
             (case deserializeStarProps schema tgt jsn st of
                Inl e \<Rightarrow> Inl e
              | Inr st1 \<Rightarrow> deserializeProps cx schema jsn tgt rest st1)
         | _ \<Rightarrow> Inl (InvariantError (''[serializr] prop schema '' @ [CHR 0x27] @ ''*'' @ [CHR 0x27]
                     @ '' can onle be used with '' @ [CHR 0x27] @ ''true'' @ [CHR 0x27]), st))
      else (case propDef of
        PFalse \<Rightarrow> deserializeProps cx schema jsn tgt rest st
      | PTrue \<Rightarrow>
          (case deserializeProp cx propName None CPrimitive jsn tgt st of
             Inl e \<Rightarrow> Inl e
           | Inr st1 \<Rightarrow> deserializeProps cx schema jsn tgt rest st1)
      | PSchema (PropSchema jn idf cd) \<Rightarrow>
          (case deserializeProp cx propName jn cd jsn tgt st of
             Inl e \<Rightarrow> Inl e
           | Inr st1 \<Rightarrow> deserializeProps cx schema jsn tgt rest st1)))"
| "deserializeProp cx propName jn cd jsn tgt st =
     (let jsonAttr = (case jn of None \<Rightarrow> propName | Some n \<Rightarrow> if n = [] then propName else n) in
      case json_has st jsn jsonAttr of
        Inl e \<Rightarrow> Inl (e, st)
      | Inr present \<Rightarrow>
          if \<not> present then Inr st
          else
            let (callback, st1) = createCallback (rootContext (contexts st cx)) (Assign tgt propName) st
            in deserializer cd (json_get st jsn jsonAttr) callback cx st1)"
  by pat_completeness auto

text \<open>
  Every call goes to a smaller codec, schema or property list; between functions on the
  same schema or codec the second component decreases.
\<close>

termination
  by (relation "measures
        [\<lambda>x. case x of
            Inl (Inl (cd, r)) \<Rightarrow> size cd
          | Inl (Inr (p, schema, r)) \<Rightarrow> size schema
          | Inr (Inl (c, schema, r)) \<Rightarrow> size schema
          | Inr (Inr (Inl (c, s, j, t, ps, r))) \<Rightarrow> size_list (size_prod (\<lambda>x. 0) size) ps
          | Inr (Inr (Inr (c, n, j, cd, r))) \<Rightarrow> size cd,
         \<lambda>x. case x of
            Inl (Inl r) \<Rightarrow> 0
          | Inl (Inr r) \<Rightarrow> 2
          | Inr (Inl r) \<Rightarrow> 1
          | Inr (Inr (Inl r)) \<Rightarrow> 0
          | Inr (Inr (Inr r)) \<Rightarrow> Suc 0]")
     auto

subsection \<open>deserialize and update\<close>

text \<open>
  \<open>deserialize(schema, json, callback)\<close>: \<open>callback\<close> is \<open>None\<close> when the caller passes
  none.  The result is the value returned and the state reached.
\<close>

definition deserialize ::
  "registry \<Rightarrow> thing \<Rightarrow> jsval \<Rightarrow> cb option \<Rightarrow> mstate \<Rightarrow> jsval outcome_with" where
  "deserialize reg schema jsn callback st =
     (case getDefaultModelSchema reg schema of
        Found s \<Rightarrow>
          (case jsn of
             JArr ar \<Rightarrow>
               (case parallel ar
                       (\<lambda>childJson itemDone st1.
                          case deserializeObjectWithSchema None s childJson (Some itemDone) st1 of
                            Inl e \<Rightarrow> Inl e
                          | Inr (instance, st2) \<Rightarrow> Inr (st2\<lparr>items := items st2 @ [instance]\<rparr>))
                       (case callback of None \<Rightarrow> GUARDED_NOOP | Some f \<Rightarrow> f)
                       (st\<lparr>items := []\<rparr>) of
                  Inl e \<Rightarrow> Inl e
                | Inr st3 \<Rightarrow> Inr (JArr (items st3), st3))
           | _ \<Rightarrow> deserializeObjectWithSchema None s jsn callback st)
      | _ \<Rightarrow> Inl (InvariantError ''[serializr] first argument should be model schema'', st))"

text \<open>
  \<open>update(modelSchema, target, json, callback)\<close> with the schema given; an instance is
  an object of the heap.
\<close>

definition update :: "thing \<Rightarrow> jsval \<Rightarrow> jsval \<Rightarrow> cb option \<Rightarrow> mstate \<Rightarrow> outcome" where
  "update schema tgt jsn callback st =
     (case schema of
        TSchema s \<Rightarrow>
          (case tgt of
             JRef a \<Rightarrow>
               let (cx, st1) = new_context None s jsn callback st;
                   st2 = set_context cx ((contexts st1 cx)\<lparr>target := JRef a\<rparr>) st1;
                   (lock, st3) = createCallback cx LockFn st2
               in (case deserializePropsWithSchema cx s jsn a st3 of
                     Inl e \<Rightarrow> Inl e
                   | Inr st4 \<Rightarrow> invoke lock JUndefined JUndefined st4)
           | _ \<Rightarrow> Inl (InvariantError ''[serializr] update needs an object'', st))
      | _ \<Rightarrow> Inl (InvariantError ''[serializr] update failed to determine schema'', st))"

definition init_state :: "(nat \<Rightarrow> (string \<times> jsval) list) \<Rightarrow> nat \<Rightarrow> mstate" where
  "init_state h n =
     \<lparr> heap = h, nextAddr = n, contexts = (\<lambda>c. undefined), nextContext = 0,
       fired = (\<lambda>x. False), nextOnce = 0,
       parallels = (\<lambda>x. \<lparr>left = 0, resultArray = [], failed = False\<rparr>), nextParallel = 0,
       items = [], completions = [] \<rparr>"

section \<open>Serialization\<close>

text \<open>\<open>obj && typeof obj === "object"\<close>.\<close>

fun is_object :: "jsval \<Rightarrow> bool" where
  "is_object (JArr xs) = True"
| "is_object (JObj kvs) = True"
| "is_object (JRef a) = True"
| "is_object (JDate t) = True"
| "is_object JInvalidDate = True"
| "is_object (JErr m) = True"
| "is_object v = False"

text \<open>\<open>ar.map(f)\<close> where \<open>f\<close> may throw: the first exception ends the walk.\<close>

fun map_result :: "('a \<Rightarrow> error + 'b) \<Rightarrow> 'a list \<Rightarrow> error + 'b list" where
  "map_result f [] = Inr []"
| "map_result f (x # xs) =
     (case f x of
        Inl e \<Rightarrow> Inl e
      | Inr y \<Rightarrow> (case map_result f xs of Inl e \<Rightarrow> Inl e | Inr ys \<Rightarrow> Inr (y # ys)))"

lemma map_result_cong [fundef_cong]:
  "xs = ys \<Longrightarrow> (\<And>x. x \<in> set ys \<Longrightarrow> f x = g x) \<Longrightarrow> map_result f xs = map_result g ys"
  by (induction ys arbitrary: xs) (auto split: sum.splits)

text \<open>The loop of \<open>serializeStarProps(schema, obj, target)\<close> over the own keys of \<open>obj\<close>.\<close>

fun serializeStarProps_loop ::
  "modelschema \<Rightarrow> mstate \<Rightarrow> jsval \<Rightarrow> string list \<Rightarrow> (string \<times> jsval) list
     \<Rightarrow> error + (string \<times> jsval) list" where
  "serializeStarProps_loop schema st obj [] res = Inr res"
| "serializeStarProps_loop schema st obj (key # keys) res =
     (if \<not> obj_has (props schema) key then
        (let v = json_get st obj key in
         if \<not> isPrimitive v
         then Inl (InvariantError
                (''[serializr] encountered non primitive value while serializing '' @
                 [CHR 0x27] @ ''*'' @ [CHR 0x27] @ '' properties in property '' @
                 [CHR 0x27] @ key @ [CHR 0x27] @ '': '' @ toString v))
         else serializeStarProps_loop schema st obj keys (obj_set key v res))
      else serializeStarProps_loop schema st obj keys res)"

definition serializeStarProps ::
  "modelschema \<Rightarrow> mstate \<Rightarrow> jsval \<Rightarrow> (string \<times> jsval) list \<Rightarrow> error + (string \<times> jsval) list" where
  "serializeStarProps schema st obj res =
     serializeStarProps_loop schema st obj (for_in_keys st obj) res"

text \<open>
  \<open>serializer cd st value\<close> is the \<open>serializer\<close> function of a property schema with the
  pair \<open>cd\<close>; instances are read from the heap of \<open>st\<close>.  \<open>serialize\<close> is the call with two
  arguments, \<open>serializeProps\<close> the \<open>forEach\<close> over \<open>schema.props\<close>.  An array-like object
  that is not an array is outside the model.
\<close>

function (sequential) serializer :: "codec \<Rightarrow> mstate \<Rightarrow> jsval \<Rightarrow> error + jsval"
  and serialize :: "modelschema \<Rightarrow> mstate \<Rightarrow> jsval \<Rightarrow> error + jsval"
  and serializeWithSchema :: "modelschema \<Rightarrow> mstate \<Rightarrow> jsval \<Rightarrow> error + (string \<times> jsval) list"
  and serializeProps ::
    "modelschema \<Rightarrow> mstate \<Rightarrow> jsval \<Rightarrow> (string \<times> propdef) list \<Rightarrow> (string \<times> jsval) list
       \<Rightarrow> error + (string \<times> jsval) list"
where
  "serializer CPrimitive st v =
     (if \<not> isPrimitive v
      then Inl (InvariantError (''[serializr] this value is not primitive: '' @ toString v))
      else Inr v)"
| "serializer CIdentifier st v =
     (if \<not> isPrimitive v
      then Inl (InvariantError (''[serializr] this value is not primitive: '' @ toString v))
      else Inr v)"
| "serializer CDate st v =
     (if is_nullish v then Inr v
      else (case v of
              JDate t \<Rightarrow> Inr (JNum t)
            | JInvalidDate \<Rightarrow> Inr JNaN
            | _ \<Rightarrow> Inl (InvariantError ''[serializr] Expected Date object'')))"
| "serializer (CCustom ser deser) st v = Inr (ser v)"
| "serializer (CObject schema) st item =
     (if is_nullish item then Inr item else serialize schema st item)"
| "serializer (CReference attr schema) st item =
     (if truthy item then Inr (json_get st item attr) else Inr JNull)"
| "serializer (CList (PropSchema jn idf cd)) st ar =
     (case ar of
        JArr xs \<Rightarrow>
          (case map_result (serializer cd st) xs of Inl e \<Rightarrow> Inl e | Inr ys \<Rightarrow> Inr (JArr ys))
      | _ \<Rightarrow>
          if \<not> truthy ar then Inl (InvariantError ''[serializr] expected array (like) object'')
          else if isPrimitive ar
          then Inl (TypeError ''Cannot use in operator to search for a key in a primitive'')
          else Inl (InvariantError ''[serializr] expected array (like) object''))"
| "serialize schema st thing =
     (case thing of
        JArr xs \<Rightarrow>
          (if length xs = 0 then Inr (JArr [])
           else (case map_result (\<lambda>item. serializeWithSchema schema st item) xs of
                   Inl e \<Rightarrow> Inl e
                 | Inr ys \<Rightarrow> Inr (JArr (map JObj ys))))
      | _ \<Rightarrow> (case serializeWithSchema schema st thing of Inl e \<Rightarrow> Inl e | Inr r \<Rightarrow> Inr (JObj r)))"
| "serializeWithSchema (ModelSchema i tc fa ps ex) st obj =
     (if \<not> is_object obj then Inl (InvariantError ''[serializr] Expected object'')
      else (case ex of
              None \<Rightarrow> serializeProps (ModelSchema i tc fa ps ex) st obj ps []
            | Some parent \<Rightarrow>
                (case serializeWithSchema parent st obj of
                   Inl e \<Rightarrow> Inl e
                 | Inr res \<Rightarrow> serializeProps (ModelSchema i tc fa ps ex) st obj ps res)))"
| "serializeProps schema st obj [] res = Inr res"
| "serializeProps schema st obj ((key, propDef) # rest) res =
     (if key = ''*'' then
        (case propDef of
           PTrue \<Rightarrow>
             (case serializeStarProps schema st obj res of
                Inl e \<Rightarrow> Inl e
              | Inr res1 \<Rightarrow> serializeProps schema st obj rest res1)
         | _ \<Rightarrow> Inl (InvariantError (''[serializr] prop schema '' @ [CHR 0x27] @ ''*'' @ [CHR 0x27]
                     @ '' can onle be used with '' @ [CHR 0x27] @ ''true'' @ [CHR 0x27])))
      else (case propDef of
        PFalse \<Rightarrow> serializeProps schema st obj rest res
      | PTrue \<Rightarrow>
          (case serializer CPrimitive st (json_get st obj key) of
             Inl e \<Rightarrow> Inl e
           | Inr jsonValue \<Rightarrow> serializeProps schema st obj rest (obj_set key jsonValue res))
      | PSchema (PropSchema jn idf cd) \<Rightarrow>
          (case serializer cd st (json_get st obj key) of
             Inl e \<Rightarrow> Inl e
           | Inr jsonValue \<Rightarrow>
               serializeProps schema st obj rest
                 (obj_set (case jn of None \<Rightarrow> key | Some n \<Rightarrow> if n = [] then key else n)
                    jsonValue res))))"
  by pat_completeness auto

termination
  by (relation "measures
        [\<lambda>x. case x of
            Inl (Inl (cd, r)) \<Rightarrow> size cd
          | Inl (Inr (schema, r)) \<Rightarrow> size schema
          | Inr (Inl (schema, r)) \<Rightarrow> size schema
          | Inr (Inr (s, t, j, ps, r)) \<Rightarrow> size_list (size_prod (\<lambda>x. 0) size) ps,
         \<lambda>x. case x of
            Inl (Inl r) \<Rightarrow> 0
          | Inl (Inr r) \<Rightarrow> 2
          | Inr (Inl r) \<Rightarrow> Suc 0
          | Inr (Inr r) \<Rightarrow> 0]")
     auto

section \<open>Example schemas\<close>

text \<open>
  \<open>User = {uuid: identifier(), name: primitive()}\<close> and
  \<open>Post = {author: reference(User), msg: primitive()}\<close>, made by \<open>createSimpleSchema\<close>;
  \<open>Board = {authors: list(reference(User)), a: true, b: true}\<close>.
\<close>

definition User :: modelschema where
  "User = ModelSchema 1 None (Some [])
     [(''uuid'', PSchema identifier_schema), (''name'', PSchema primitive)] None"

definition Post :: modelschema where
  "Post = ModelSchema 2 None (Some [])
     [(''author'', PSchema (PropSchema None None (CReference ''uuid'' User))),
      (''msg'', PSchema primitive)] None"

definition Board :: modelschema where
  "Board = ModelSchema 3 None (Some [])
     [(''authors'', PSchema (PropSchema None None
          (CList (PropSchema None None (CReference ''uuid'' User))))),
      (''a'', PTrue), (''b'', PTrue)] None"

section \<open>Evaluation\<close>

lemma nat_digits_numeral:
  "nat_digits (numeral k) n =
     (if n < 10 then [digit_char n]
      else nat_digits (pred_numeral k) (n div 10) @ [digit_char (n mod 10)])"
  by (simp add: numeral_eq_Suc)

lemmas eval_defs =
  deserialize_def update_def init_state_def new_context_def createCallback_def set_context_def
  set_property_def obj_set_def obj_has_def obj_get_def is_nullish_def Let_def parallel_def
  await_def resolve_def unresolvable_message_def unresolvable_keys_def obj_keys_def
  array_set_def int_to_string_def nat_to_string_def nat_digits_numeral digit_char_def
  is_index_def is_digit_def digit_of_def identifier_schema_def primitive_def
  object_prototype_names_def

lemma reference_User: "reference (\<lambda>c. None) (TSchema User)
    = Inr (PropSchema None None (CReference ''uuid'' User))"
  by (simp add: reference_def) (simp add: User_def identifier_schema_def)

section \<open>The default-schema registry\<close>

lemma setDefaultModelSchema_then_get:
  "setDefaultModelSchema reg c (TSchema s) = Inr (s, reg') \<Longrightarrow>
     getDefaultModelSchema reg' (TClass c) = Found s"
  by auto

text \<open>
  Claim C1.  Calling the exported operation \<open>setDefaultModelSchema(C, S)\<close> should associate
  \<open>S\<close> with \<open>C\<close>, so that \<open>getDefaultModelSchema(C)\<close> returns \<open>S\<close> afterwards.  The function
  of that name inside the module does so.  The exported name is bound to
  \<open>getDefaultModelSchema\<close>: on a class with no schema and a schema \<open>S\<close>, the call returns
  \<open>undefined\<close>, leaves the registry as it was, and \<open>getDefaultModelSchema(C)\<close> is still
  \<open>undefined\<close>.
\<close>

theorem exported_setDefaultModelSchema_does_not_register:
  "exported_setDefaultModelSchema (\<lambda>c. None) (TClass 0)
       (TSchema (ModelSchema 7 (Some 0) (Some []) [(''title'', PTrue)] None))
     = (Undefined, (\<lambda>c. None))
   \<and> getDefaultModelSchema
         (snd (exported_setDefaultModelSchema (\<lambda>c. None) (TClass 0)
            (TSchema (ModelSchema 7 (Some 0) (Some []) [(''title'', PTrue)] None))))
         (TClass 0) = Undefined
   \<and> (case setDefaultModelSchema (\<lambda>c. None) 0
            (TSchema (ModelSchema 7 (Some 0) (Some []) [(''title'', PTrue)] None)) of
         Inl e \<Rightarrow> False
       | Inr (r, reg') \<Rightarrow>
           getDefaultModelSchema reg' (TClass 0)
             = Found (ModelSchema 7 (Some 0) (Some []) [(''title'', PTrue)] None))"
  by (simp add: exported_setDefaultModelSchema_def)

section \<open>object\<close>

text \<open>
  Claim C2, as stated: \<open>object(schemaRef)\<close> tolerates a \<open>schemaRef\<close> with no resolvable
  schema when it is called.  It does not: on a class with no schema the call throws.
\<close>

theorem object_unresolved_throws:
  "object (\<lambda>c. None) (TClass 0)
     = Inl (InvariantError ''[serializr] expected modelSchema, got undefined'')"
  by (simp add: object_def)

text \<open>
  Claim C2, amended.  \<open>object(schemaRef)\<close> resolves \<open>schemaRef\<close> through the registry at
  the moment \<open>object\<close> is called: it returns a property schema exactly when a schema is
  found then, and the serializer and deserializer of that property schema are the ones
  of the schema found at that moment.
\<close>

theorem object_resolves_when_called:
  "object reg schemaRef = Inr p \<longleftrightarrow>
     (\<exists>s. getDefaultModelSchema reg schemaRef = Found s \<and> p = PropSchema None None (CObject s))"
  by (cases "getDefaultModelSchema reg schemaRef") (auto simp: object_def)

section \<open>primitive\<close>



section \<open>deserialize on null\<close>

text \<open>
  Claim C10.  For a schema that resolves, \<open>deserialize(schema, json, completion)\<close> with
  \<open>json\<close> \<open>null\<close> or \<open>undefined\<close> calls the completion with \<open>(null, null)\<close> and returns
  \<open>undefined\<close>; the factory is not called, so no context and no instance is created and
  the state changes only by what the completion does.  With no completion the call throws.
\<close>

theorem deserialize_null_json:
  assumes "is_nullish jsn" and "getDefaultModelSchema reg schema = Found s"
  shows "deserialize reg schema jsn (Some Completion) st
           = Inr (JUndefined, st\<lparr>completions := completions st @ [(JNull, JNull)]\<rparr>)
       \<and> (\<forall>f. deserialize reg schema jsn (Some f) st
              = (case invoke f JNull JNull st of Inl e \<Rightarrow> Inl e | Inr st1 \<Rightarrow> Inr (JUndefined, st1)))
       \<and> (\<exists>m. deserialize reg schema jsn None st = Inl (TypeError m, st))"
  using assms by (auto simp: deserialize_def is_nullish_def)

theorem deserialize_null_json_witness:
  "is_nullish JNull
   \<and> getDefaultModelSchema (\<lambda>c. None) (TSchema (ModelSchema 1 None (Some []) [(''a'', PTrue)] None))
       = Found (ModelSchema 1 None (Some []) [(''a'', PTrue)] None)
   \<and> (case deserialize (\<lambda>c. None) (TSchema (ModelSchema 1 None (Some []) [(''a'', PTrue)] None))
              JNull (Some Completion) (init_state (\<lambda>a. []) 0) of
         Inl e \<Rightarrow> False
       | Inr (v, st) \<Rightarrow> v = JUndefined \<and> completions st = [(JNull, JNull)] \<and> nextAddr st = 0
                          \<and> nextContext st = 0)
   \<and> (\<exists>m. deserialize (\<lambda>c. None) (TSchema (ModelSchema 1 None (Some []) [(''a'', PTrue)] None))
              JNull None (init_state (\<lambda>a. []) 0) = Inl (TypeError m, init_state (\<lambda>a. []) 0))"
  using deserialize_null_json [of JNull "\<lambda>c. None"
      "TSchema (ModelSchema 1 None (Some []) [(''a'', PTrue)] None)"
      "ModelSchema 1 None (Some []) [(''a'', PTrue)] None" "init_state (\<lambda>a. []) 0"]
  by (simp add: is_nullish_def init_state_def)

section \<open>Settlement of a context\<close>

lemma call_fn_keeps_contexts:
  "call_fn f v st = Inr st2 \<Longrightarrow> contexts st2 = contexts st \<and> completions st2 = completions st"
  by (cases f) (auto simp: set_property_def split: if_splits)

lemma set_unresolvable_keys:
  "set (unresolvable_keys refs) = {uuid. \<exists>l. map_of refs uuid = Some l \<and> l \<noteq> []}"
proof -
  have "\<And>k l. map_of refs k = Some l \<Longrightarrow> k \<in> fst ` set refs"
    by (metis domI dom_map_of_conv_image_fst)
  then show ?thesis
    by (auto simp: unresolvable_keys_def obj_keys_def split: option.splits)
qed

lemma distinct_unresolvable_keys:
  "distinct (map fst refs) \<Longrightarrow> distinct (unresolvable_keys refs)"
  by (simp add: unresolvable_keys_def obj_keys_def)

text \<open>
  Claim C4.  When a callback of a context settles without error, the context has no
  error latched, and the decremented \<open>pendingCallbacks\<close> equals a positive
  \<open>pendingRefsCount\<close>, then \<open>onReadyCb\<close> is invoked with an \<open>Error\<close> whose message is
  \<open>Unresolvable references in json: "k1", "k2", ...\<close>, where the keys are exactly the
  identifier keys whose list of pending references is not empty.  Deserializing
  \<open>{author: 99, msg: "hi"}\<close> with \<open>Post\<close> calls the completion once, with the message
  naming \<open>99\<close>.
\<close>

theorem stuck_settlement_names_pending_keys:
  assumes "\<not> fired st oid" and "\<not> truthy err" and "\<not> hasError (contexts st cid)"
    and "call_fn f v (st\<lparr>fired := (fired st)(oid := True)\<rparr>) = Inr st2"
    and "pendingCallbacks (contexts st cid) - 1 = pendingRefsCount (contexts st cid)"
    and "pendingRefsCount (contexts st cid) > 0"
  shows "invoke (Once oid cid f ready) err v st
           = invoke ready (JErr (unresolvable_message (pendingRefs (contexts st cid)))) JUndefined
               (set_context cid
                  ((contexts st cid)\<lparr>pendingCallbacks := pendingRefsCount (contexts st cid)\<rparr>) st2)
       \<and> unresolvable_message (pendingRefs (contexts st cid))
           = ''Unresolvable references in json: '' @ [CHR 0x22]
               @ join ([CHR 0x22] @ '', '' @ [CHR 0x22]) (unresolvable_keys (pendingRefs (contexts st cid)))
               @ [CHR 0x22]
       \<and> set (unresolvable_keys (pendingRefs (contexts st cid)))
           = {uuid. \<exists>l. map_of (pendingRefs (contexts st cid)) uuid = Some l \<and> l \<noteq> []}
       \<and> (case deserialize (\<lambda>c. None) (TSchema Post)
                  (JObj [(''author'', JNum 99), (''msg'', JStr ''hi'')]) (Some Completion)
                  (init_state (\<lambda>a. []) 0) of
             Inl e \<Rightarrow> False
           | Inr (r, st') \<Rightarrow>
               completions st'
                 = [(JErr (''Unresolvable references in json: '' @ [CHR 0x22] @ ''99'' @ [CHR 0x22]),
                     JUndefined)])"
proof -
  have a: "invoke (Once oid cid f ready) err v st
           = invoke ready (JErr (unresolvable_message (pendingRefs (contexts st cid)))) JUndefined
               (set_context cid
                  ((contexts st cid)\<lparr>pendingCallbacks := pendingRefsCount (contexts st cid)\<rparr>) st2)"
    using assms call_fn_keeps_contexts [OF assms(4)] by (simp add: Let_def)
  have b: "case deserialize (\<lambda>c. None) (TSchema Post)
                  (JObj [(''author'', JNum 99), (''msg'', JStr ''hi'')]) (Some Completion)
                  (init_state (\<lambda>a. []) 0) of
             Inl e \<Rightarrow> False
           | Inr (r, st') \<Rightarrow>
               completions st'
                 = [(JErr (''Unresolvable references in json: '' @ [CHR 0x22] @ ''99'' @ [CHR 0x22]),
                     JUndefined)]"
    by (simp add: Post_def User_def eval_defs cong: let_weak_cong old.prod.case_cong_weak)
  show ?thesis
    using a b by (simp add: set_unresolvable_keys) (simp add: unresolvable_message_def)
qed

definition stuck_state :: mstate where
  "stuck_state =
     set_context 0
       \<lparr> parentContext = None, isRoot = True, pendingCallbacks = 2, pendingRefsCount = 1,
         onReadyCb = Completion, json = JObj [(''author'', JNum 99)], target = JRef 0,
         hasError = False, modelSchema = Post, rootContext = 0,
         pendingRefs = [(''99'', [Pending User (JNum 99) (Once 1 0 (Assign 0 ''author'') Completion)]),
                        (''7'', [])],
         resolvedRefs = [] \<rparr>
       (init_state (\<lambda>a. []) 1)"

theorem stuck_settlement_names_pending_keys_witness:
  "\<not> fired stuck_state 0 \<and> \<not> truthy JUndefined \<and> \<not> hasError (contexts stuck_state 0)
   \<and> call_fn LockFn JUndefined (stuck_state\<lparr>fired := (fired stuck_state)(0 := True)\<rparr>)
       = Inr (stuck_state\<lparr>fired := (fired stuck_state)(0 := True)\<rparr>)
   \<and> pendingCallbacks (contexts stuck_state 0) - 1 = pendingRefsCount (contexts stuck_state 0)
   \<and> pendingRefsCount (contexts stuck_state 0) > 0
   \<and> completions (projr (invoke (Once 0 0 LockFn Completion) JUndefined JUndefined stuck_state))
       = [(JErr (''Unresolvable references in json: '' @ [CHR 0x22] @ ''99'' @ [CHR 0x22]),
           JUndefined)]
   \<and> set (unresolvable_keys (pendingRefs (contexts stuck_state 0))) = {''99''}"
proof -
  have h: "\<not> fired stuck_state 0" "\<not> truthy JUndefined" "\<not> hasError (contexts stuck_state 0)"
    "call_fn LockFn JUndefined (stuck_state\<lparr>fired := (fired stuck_state)(0 := True)\<rparr>)
       = Inr (stuck_state\<lparr>fired := (fired stuck_state)(0 := True)\<rparr>)"
    "pendingCallbacks (contexts stuck_state 0) - 1 = pendingRefsCount (contexts stuck_state 0)"
    "pendingRefsCount (contexts stuck_state 0) > 0"
    by (simp_all add: stuck_state_def init_state_def set_context_def)
  have k: "unresolvable_keys (pendingRefs (contexts stuck_state 0)) = [''99'']"
    by (simp add: stuck_state_def init_state_def set_context_def unresolvable_keys_def obj_keys_def)
  from stuck_settlement_names_pending_keys [OF h, of Completion]
  have "invoke (Once 0 0 LockFn Completion) JUndefined JUndefined stuck_state
          = invoke Completion (JErr (unresolvable_message (pendingRefs (contexts stuck_state 0))))
              JUndefined
              (set_context 0
                 ((contexts stuck_state 0)\<lparr>pendingCallbacks := pendingRefsCount (contexts stuck_state 0)\<rparr>)
                 (stuck_state\<lparr>fired := (fired stuck_state)(0 := True)\<rparr>))"
    by blast
  then have "completions (projr (invoke (Once 0 0 LockFn Completion) JUndefined JUndefined stuck_state))
       = [(JErr (unresolvable_message (pendingRefs (contexts stuck_state 0))), JUndefined)]"
    by (simp add: set_context_def stuck_state_def init_state_def)
  then show ?thesis
    using h k by (simp add: unresolvable_message_def)
qed

section \<open>Completion is not exclusive\<close>

text \<open>
  Claim C3.  The completion of a top-level \<open>deserialize\<close> should be invoked exactly once.
  The settlement with unresolvable references does not latch \<open>hasError\<close>, and
  \<open>pendingCallbacks\<close> counts one callback for a list of references while
  \<open>pendingRefsCount\<close> counts every reference in it.  Deserializing
  \<open>{authors: [98, 99], a: 1, b: 2}\<close> with \<open>Board\<close> invokes the completion twice, each time
  with the error of unresolvable references.
\<close>

theorem completion_invoked_twice:
  "(case deserialize (\<lambda>c. None) (TSchema Board)
            (JObj [(''authors'', JArr [JNum 98, JNum 99]), (''a'', JNum 1), (''b'', JNum 2)])
            (Some Completion) (init_state (\<lambda>a. []) 0) of
      Inl e \<Rightarrow> False
    | Inr (r, st) \<Rightarrow>
        completions st
          = [(JErr (''Unresolvable references in json: '' @ [CHR 0x22] @ ''98'' @ [CHR 0x22]
                     @ '', '' @ [CHR 0x22] @ ''99'' @ [CHR 0x22]), JUndefined),
             (JErr (''Unresolvable references in json: '' @ [CHR 0x22] @ ''98'' @ [CHR 0x22]
                     @ '', '' @ [CHR 0x22] @ ''99'' @ [CHR 0x22]), JUndefined)])"
  by (simp add: Board_def User_def eval_defs cong: let_weak_cong old.prod.case_cong_weak)

section \<open>list and parallel\<close>











text \<open>
  \<open>set_cells pid c st\<close> is the state \<open>st\<close> with the cells of the call \<open>pid\<close> of \<open>parallel\<close>
  replaced by \<open>c\<close>; \<open>all_pending\<close> lists every entry of a table of pending references;
  \<open>Roster = {authors: list(reference(User)), users: list(object(User))}\<close>.
\<close>

definition set_cells :: "nat \<Rightarrow> par \<Rightarrow> mstate \<Rightarrow> mstate" where
  "set_cells pid c st = st\<lparr>parallels := (parallels st)(pid := c)\<rparr>"

lemma set_cells_simps [simp]:
  "parallels (set_cells pid c st) pid = c"
  "set_cells pid c (set_cells pid c' st) = set_cells pid c st"
  "completions (set_cells pid c st) = completions st"
  by (simp_all add: set_cells_def)













definition all_pending :: "(string \<times> pending list) list \<Rightarrow> pending list" where
  "all_pending refs = concat (map snd refs)"

lemma all_pending_simps [simp]:
  "all_pending [] = []"
  "all_pending ((k, l) # refs) = l @ all_pending refs"
  by (simp_all add: all_pending_def)

























end
